theory Spec2Isabelle
  imports Complex_Main "HOL-Library.Multiset"
begin

section \<open>Failures of the C++ code as values\<close>

text \<open>
  The two programs of the repository (\<^verbatim>\<open>source/main.cpp\<close> with
  \<^verbatim>\<open>source/stitched_cloud.cpp\<close>, and \<^verbatim>\<open>point_cloud_cleanup.cpp\<close>) raise C++
  exceptions and, with \<^verbatim>\<open>std::vector::operator[]\<close> and \<^verbatim>\<open>erase\<close>, can leave the
  bounds of a vector, which is undefined behaviour. Every such event is a value of
  \<open>error\<close>; a function that can fail returns \<open>error + 'a\<close> with \<open>Inl\<close> for the failure.
\<close>

datatype error =
    Out_Of_Range          \<comment> \<open>\<^verbatim>\<open>std::out_of_range\<close>: \<^verbatim>\<open>substr\<close> past the end, \<^verbatim>\<open>stoi\<close> overflow\<close>
  | Invalid_Argument      \<comment> \<open>\<^verbatim>\<open>std::invalid_argument\<close>: \<^verbatim>\<open>stoi\<close>/\<^verbatim>\<open>stod\<close> found no number\<close>
  | Domain_Error          \<comment> \<open>\<^verbatim>\<open>std::domain_error\<close> thrown by \<^verbatim>\<open>getTransformationData\<close>\<close>
  | Undefined_Behaviour   \<comment> \<open>an unchecked vector access or iterator outside the vector\<close>

section \<open>\<^verbatim>\<open>std::string\<close> operations used by the programs\<close>

text \<open>
  \<^verbatim>\<open>size_t\<close> is 64 bits wide. \<^verbatim>\<open>find\<close> and \<^verbatim>\<open>find_last_of\<close> return \<open>npos\<close>, the largest
  \<^verbatim>\<open>size_t\<close>, when nothing is found, and arithmetic on positions wraps modulo \<open>2 ^ 64\<close>.
\<close>

definition npos :: nat where
  "npos = 2 ^ 64 - 1"

definition size_t_add :: "nat \<Rightarrow> nat \<Rightarrow> nat" where
  "size_t_add a b = (a + b) mod 2 ^ 64"

definition size_t_sub :: "nat \<Rightarrow> nat \<Rightarrow> nat" where
  "size_t_sub a b = (a + 2 ^ 64 - b) mod 2 ^ 64"

fun index_of :: "char \<Rightarrow> string \<Rightarrow> nat option" where
  "index_of c [] = None"
| "index_of c (d # ds) = (if d = c then Some 0 else map_option Suc (index_of c ds))"

definition str_find :: "string \<Rightarrow> char \<Rightarrow> nat" where
  "str_find s c = (case index_of c s of None \<Rightarrow> npos | Some i \<Rightarrow> i)"

definition find_last_of :: "string \<Rightarrow> char \<Rightarrow> nat" where
  "find_last_of s c =
     (case index_of c (rev s) of None \<Rightarrow> npos | Some i \<Rightarrow> length s - 1 - i)"

text \<open>\<^verbatim>\<open>s.substr(pos, n)\<close> throws when \<open>pos\<close> is beyond the size, and is cut at the end.\<close>

definition substr :: "string \<Rightarrow> nat \<Rightarrow> nat \<Rightarrow> error + string" where
  "substr s pos n =
     (if pos > length s then Inl Out_Of_Range
      else Inr (take (min n (length s - pos)) (drop pos s)))"

text \<open>
  \<^verbatim>\<open>std::stoi(str)\<close> in base 10, as \<^verbatim>\<open>strtol\<close> reads it: leading white space, an
  optional sign, then the longest run of decimal digits; what follows is ignored.
  No digit gives \<^verbatim>\<open>std::invalid_argument\<close>, a value outside 32-bit \<^verbatim>\<open>int\<close> gives
  \<^verbatim>\<open>std::out_of_range\<close>.
\<close>

definition isspace :: "char \<Rightarrow> bool" where
  "isspace c = (of_char c = (32::nat) \<or> (9 \<le> (of_char c :: nat) \<and> (of_char c :: nat) \<le> 13))"

definition isdigit :: "char \<Rightarrow> bool" where
  "isdigit c = (48 \<le> (of_char c :: nat) \<and> (of_char c :: nat) \<le> 57)"

definition digit_value :: "char \<Rightarrow> int" where
  "digit_value c = int (of_char c) - 48"

definition decimal :: "string \<Rightarrow> int" where
  "decimal ds = foldl (\<lambda>a c. 10 * a + digit_value c) 0 ds"

definition stoi :: "string \<Rightarrow> error + int" where
  "stoi str =
     (let s1 = dropWhile isspace str;
          negative = (s1 \<noteq> [] \<and> hd s1 = CHR ''-'');
          s2 = (if s1 \<noteq> [] \<and> (hd s1 = CHR ''-'' \<or> hd s1 = CHR ''+'') then tl s1 else s1);
          ds = takeWhile isdigit s2
      in if ds = [] then Inl Invalid_Argument
         else let v = (if negative then - decimal ds else decimal ds)
              in if v < - (2 ^ 31) \<or> 2 ^ 31 - 1 < v then Inl Out_Of_Range else Inr v)"

section \<open>Keeping only PCD files\<close>

text \<open>
  \<^verbatim>\<open>filePredicate\<close> is the predicate of \<^verbatim>\<open>std::remove_if\<close>: \<open>True\<close> removes the name.
  Both programs define it with the same body. \<^verbatim>\<open>compare\<close> returns 0 on equality, so
  \<^verbatim>\<open>!s.compare(t)\<close> is equality and a bare \<^verbatim>\<open>compare\<close> is inequality; \<^verbatim>\<open>||\<close> evaluates
  \<^verbatim>\<open>substr\<close> only when the three comparisons before it are false.
\<close>

definition filePredicate :: "string \<Rightarrow> error + bool" where
  "filePredicate s =
     (let i = str_find s CHR ''.'' in
      if s = ''.'' then Inr True
      else if s = ''..'' then Inr True
      else if s = ''filtered.pcd'' then Inr True
      else (case substr s i 4 of
              Inl e \<Rightarrow> Inl e
            | Inr t \<Rightarrow> Inr (t \<noteq> ''.pcd'')))"

section \<open>Ordering the frame files (\<^verbatim>\<open>source/main.cpp\<close>)\<close>

text \<open>
  The comparator of \<^verbatim>\<open>std::sort\<close> reads a number out of each name: the text from one
  past the last \<^verbatim>\<open>D\<close> (position 0 when there is none, since \<open>npos + 1\<close> wraps) up to the
  first dot, given to \<^verbatim>\<open>stoi\<close>.
\<close>

definition frame_index :: "string \<Rightarrow> error + int" where
  "frame_index a =
     (let idx_start = size_t_add (find_last_of a CHR ''D'') 1;
          idx_end = str_find a CHR ''.''
      in case substr a idx_start (size_t_sub idx_end idx_start) of
           Inl e \<Rightarrow> Inl e
         | Inr t \<Rightarrow> stoi t)"

definition compareFilenames :: "string \<Rightarrow> string \<Rightarrow> error + bool" where
  "compareFilenames a b =
     (case frame_index a of
        Inl e \<Rightarrow> Inl e
      | Inr a_int \<Rightarrow>
          (case frame_index b of
             Inl e \<Rightarrow> Inl e
           | Inr b_int \<Rightarrow> Inr (a_int < b_int)))"

text \<open>
  \<^verbatim>\<open>files_to_process.erase(std::remove_if(begin, end, filePredicate), end)\<close>: the names
  for which the predicate is false stay, in their order; the first exception of the
  predicate leaves \<^verbatim>\<open>main\<close>.
\<close>

fun remove_non_pcd :: "string list \<Rightarrow> error + string list" where
  "remove_non_pcd [] = Inr []"
| "remove_non_pcd (s # files) =
     (case filePredicate s of
        Inl e \<Rightarrow> Inl e
      | Inr remove \<Rightarrow>
          (case remove_non_pcd files of
             Inl e \<Rightarrow> Inl e
           | Inr kept \<Rightarrow> Inr (if remove then kept else s # kept)))"




subsection \<open>The order in which the cleanup program starts its workers\<close>






text \<open>
  The order the sorted list is measured against: both names have a number and the
  first number is not larger than the second.
\<close>

definition index_le :: "string \<Rightarrow> string \<Rightarrow> bool" where
  "index_le a b =
     (case frame_index a of
        Inl e \<Rightarrow> False
      | Inr i \<Rightarrow> (case frame_index b of Inl e \<Rightarrow> False | Inr j \<Rightarrow> i \<le> j))"


section \<open>Pose-prior records and their aggregation (\<^verbatim>\<open>source/main.cpp\<close>)\<close>

text \<open>
  \<^verbatim>\<open>TransformData\<close> is declared in \<^verbatim>\<open>stitched_cloud.h\<close>; its seven \<^verbatim>\<open>double\<close> fields
  are the ones \<^verbatim>\<open>main.cpp\<close> reads and writes. A \<^verbatim>\<open>double\<close> is idealised as a real
  number: the claims about these records concern which rows are read, written and
  erased, not rounding.
\<close>

record TransformData =
  dx :: real
  dy :: real
  dz :: real
  rotx :: real
  roty :: real
  rotz :: real
  confidence :: real

text \<open>The seven \<^verbatim>\<open>+=\<close> of the inner loop, and the seven \<^verbatim>\<open>/=\<close> after it.\<close>

definition add_into :: "TransformData \<Rightarrow> TransformData \<Rightarrow> TransformData" where
  "add_into a b =
     a\<lparr>dx := dx a + dx b, dy := dy a + dy b, dz := dz a + dz b,
       rotx := rotx a + rotx b, roty := roty a + roty b, rotz := rotz a + rotz b,
       confidence := confidence a + confidence b\<rparr>"

definition divide_by :: "TransformData \<Rightarrow> nat \<Rightarrow> TransformData" where
  "divide_by a n =
     a\<lparr>dx := dx a / real n, dy := dy a / real n, dz := dz a / real n,
       rotx := rotx a / real n, roty := roty a / real n, rotz := rotz a / real n,
       confidence := confidence a / real n\<rparr>"

text \<open>
  \<^verbatim>\<open>for (int j = 1; j < vals_per_cloud; ++j) transformations[i].f += transformations[i+j].f\<close>.
  \<^verbatim>\<open>operator[]\<close> does not check its index: reading or writing at or past \<open>size()\<close> is
  undefined behaviour.
\<close>

function sum_rows :: "nat \<Rightarrow> nat \<Rightarrow> nat \<Rightarrow> TransformData list \<Rightarrow> error + TransformData list" where
  "sum_rows vals_per_cloud i j transformations =
     (if j < vals_per_cloud then
        (if i < length transformations \<and> i + j < length transformations
         then sum_rows vals_per_cloud i (j + 1)
                (transformations[i := add_into (transformations ! i) (transformations ! (i + j))])
         else Inl Undefined_Behaviour)
      else Inr transformations)"
  by pat_completeness auto
termination
  by (relation "measure (\<lambda>(v, i, j, ts). v - j)") auto

declare sum_rows.simps [simp del]

text \<open>One pass of the first \<^verbatim>\<open>for\<close> loop: the inner loop, then the divisions of row \<open>i\<close>.\<close>

definition average_group :: "nat \<Rightarrow> nat \<Rightarrow> TransformData list \<Rightarrow> error + TransformData list" where
  "average_group vals_per_cloud i transformations =
     (case sum_rows vals_per_cloud i 1 transformations of
        Inl e \<Rightarrow> Inl e
      | Inr summed \<Rightarrow>
          if i < length summed
          then Inr (summed[i := divide_by (summed ! i) vals_per_cloud])
          else Inl Undefined_Behaviour)"

text \<open>
  \<^verbatim>\<open>for (int i = 0; i < transformations.size() + vals_per_cloud; i += vals_per_cloud)\<close>.
  With \<^verbatim>\<open>vals_per_cloud = 0\<close> the counter never moves, so the loop is a partial
  function: \<open>None\<close> is a run that does not end. The parameter is the row count per
  cloud, a natural number (\<^verbatim>\<open>main\<close> passes 10).
\<close>

partial_function (option) average_loop ::
  "nat \<Rightarrow> nat \<Rightarrow> TransformData list \<Rightarrow> (error + TransformData list) option" where
  "average_loop vals_per_cloud i transformations =
     (if i < length transformations + vals_per_cloud then
        (case average_group vals_per_cloud i transformations of
           Inl e \<Rightarrow> Some (Inl e)
         | Inr averaged \<Rightarrow> average_loop vals_per_cloud (i + vals_per_cloud) averaged)
      else Some (Inr transformations))"

text \<open>
  \<^verbatim>\<open>transformations.erase(transformations.begin() + i + 1)\<close>: the iterator has to point
  at an element; erasing at or past \<^verbatim>\<open>end()\<close> is undefined behaviour.
\<close>

definition erase_at :: "'a list \<Rightarrow> nat \<Rightarrow> error + 'a list" where
  "erase_at v k = (if k < length v then Inr (take k v @ drop (Suc k) v) else Inl Undefined_Behaviour)"

function erase_rows :: "nat \<Rightarrow> nat \<Rightarrow> nat \<Rightarrow> TransformData list \<Rightarrow> error + TransformData list" where
  "erase_rows vals_per_cloud i j transformations =
     (if j < vals_per_cloud then
        (case erase_at transformations (i + 1) of
           Inl e \<Rightarrow> Inl e
         | Inr erased \<Rightarrow> erase_rows vals_per_cloud i (j + 1) erased)
      else Inr transformations)"
  by pat_completeness auto
termination
  by (relation "measure (\<lambda>(v, i, j, ts). v - j)") auto

declare erase_rows.simps [simp del]

lemma erase_rows_length:
  "erase_rows v i j ts = Inr ts' \<Longrightarrow> length ts' \<le> length ts"
proof (induction v i j ts rule: erase_rows.induct)
  case (1 v i j ts)
  show ?case
  proof (cases "j < v")
    case True
    from "1.prems" have "(case erase_at ts (i + 1) of
                            Inl e \<Rightarrow> Inl e
                          | Inr erased \<Rightarrow> erase_rows v i (j + 1) erased) = Inr ts'"
      by (subst (asm) erase_rows.simps) (simp add: True)
    then obtain erased where e: "erase_at ts (i + 1) = Inr erased"
      and r: "erase_rows v i (j + 1) erased = Inr ts'"
      by (cases "erase_at ts (i + 1)") auto
    from e have "length erased \<le> length ts"
      by (auto simp: erase_at_def split: if_splits)
    moreover from "1.IH" [OF True e r] have "length ts' \<le> length erased" .
    ultimately show ?thesis by simp
  next
    case False
    from "1.prems" have "ts' = ts"
      by (subst (asm) erase_rows.simps) (simp add: False)
    then show ?thesis by simp
  qed
qed

text \<open>\<^verbatim>\<open>while (i < transformations.size()) { for (j = 0; j < vals_per_cloud; ++j) erase; ++i; }\<close>\<close>

function erase_loop :: "nat \<Rightarrow> nat \<Rightarrow> TransformData list \<Rightarrow> error + TransformData list" where
  "erase_loop vals_per_cloud i transformations =
     (if i < length transformations then
        (case erase_rows vals_per_cloud i 0 transformations of
           Inl e \<Rightarrow> Inl e
         | Inr erased \<Rightarrow> erase_loop vals_per_cloud (i + 1) erased)
      else Inr transformations)"
  by pat_completeness auto
termination
proof (relation "measure (\<lambda>(v, i, ts). length ts - i)")
  show "wf (measure (\<lambda>(v, i, ts). length ts - i))" by simp
next
  fix vals_per_cloud i :: nat and transformations erased :: "TransformData list"
  assume "i < length transformations"
    and "erase_rows vals_per_cloud i 0 transformations = Inr erased"
  then show "((vals_per_cloud, i + 1, erased), (vals_per_cloud, i, transformations))
               \<in> measure (\<lambda>(v, i, ts). length ts - i)"
    using erase_rows_length [of vals_per_cloud i 0 transformations erased] by simp
qed

declare erase_loop.simps [simp del]

definition averageTransformationData ::
  "TransformData list \<Rightarrow> nat \<Rightarrow> (error + TransformData list) option" where
  "averageTransformationData transformations vals_per_cloud =
     (case average_loop vals_per_cloud 0 transformations of
        None \<Rightarrow> None
      | Some (Inl e) \<Rightarrow> Some (Inl e)
      | Some (Inr averaged) \<Rightarrow> Some (erase_loop vals_per_cloud 0 averaged))"


section \<open>Point clouds and the PCL filters the programs call\<close>

text \<open>
  A \<^verbatim>\<open>pcl::PointXYZ\<close> has the \<^verbatim>\<open>float\<close> coordinates \<^verbatim>\<open>x\<close>, \<^verbatim>\<open>y\<close>, \<^verbatim>\<open>z\<close> (here \<open>px\<close>,
  \<open>py\<close>, \<open>pz\<close>, idealised as reals); a \<^verbatim>\<open>pcl::PointCloud\<close> is the sequence of its points.
\<close>

record PointXYZ =
  px :: real
  py :: real
  pz :: real

type_synonym cloud = "PointXYZ list"

datatype field_name = Field_x | Field_y | Field_z

fun field_value :: "field_name \<Rightarrow> PointXYZ \<Rightarrow> real" where
  "field_value Field_x p = px p"
| "field_value Field_y p = py p"
| "field_value Field_z p = pz p"

text \<open>
  \<^verbatim>\<open>pcl::PassThrough\<close> with \<^verbatim>\<open>setFilterFieldName\<close> and \<^verbatim>\<open>setFilterLimits(lo, hi)\<close>, as PCL
  documents it: a point stays when its field lies in the closed interval, and the
  order of the points is kept.
\<close>

definition passThrough :: "field_name \<Rightarrow> real \<Rightarrow> real \<Rightarrow> cloud \<Rightarrow> cloud" where
  "passThrough f lo hi c = filter (\<lambda>p. lo \<le> field_value f p \<and> field_value f p \<le> hi) c"

text \<open>
  \<^verbatim>\<open>pcl::copyPointCloud(in, indices, out)\<close> overwrites \<open>out\<close> with the points of \<open>in\<close> at
  the given indices, read without a bounds check.
\<close>

definition copyPointCloud :: "cloud \<Rightarrow> nat list \<Rightarrow> error + cloud" where
  "copyPointCloud c indices =
     (if list_all (\<lambda>k. k < length c) indices then Inr (map (nth c) indices)
      else Inl Undefined_Behaviour)"

text \<open>An unchecked \<^verbatim>\<open>std::vector::operator[]\<close> read.\<close>

definition vector_at :: "'a list \<Rightarrow> nat \<Rightarrow> error + 'a" where
  "vector_at v i = (if i < length v then Inr (v ! i) else Inl Undefined_Behaviour)"

section \<open>The wall segmenter \<^verbatim>\<open>rectangularThreshold\<close> (\<^verbatim>\<open>point_cloud_cleanup.cpp\<close>)\<close>

text \<open>
  Two PCL algorithms are parameters of the model. \<open>sor k m c\<close> is the cloud that
  \<^verbatim>\<open>pcl::StatisticalOutlierRemoval\<close> with \<^verbatim>\<open>setMeanK(k)\<close> and \<^verbatim>\<open>setStddevMulThresh(m)\<close>
  leaves of \<open>c\<close>. \<open>ransac t i j c\<close> is the index vector that
  \<^verbatim>\<open>pcl::RandomSampleConsensus\<close> over a plane model of \<open>c\<close> returns from \<^verbatim>\<open>getInliers\<close>
  after \<^verbatim>\<open>setDistanceThreshold(t)\<close> and \<^verbatim>\<open>computeModel()\<close>; RANSAC draws random samples,
  so the result is indexed by the pass \<open>i\<close> of the outer loop and \<open>j\<close> of the inner loop
  in which the call is made, and no two calls are taken to agree.
\<close>

type_synonym outlier_removal = "int \<Rightarrow> real \<Rightarrow> cloud \<Rightarrow> cloud"
type_synonym plane_fit = "real \<Rightarrow> nat \<Rightarrow> int \<Rightarrow> cloud \<Rightarrow> nat list"

text \<open>
  The inner loop \<^verbatim>\<open>for (int j = 0; j > -5; --j)\<close>: the band \<open>[j - 1, j]\<close> of \<open>z\<close>, skipped
  below 5 points, otherwise fitted and its inliers appended to \<open>ret_cloud\<close>.
\<close>

function fit_bands :: "plane_fit \<Rightarrow> nat \<Rightarrow> cloud \<Rightarrow> int \<Rightarrow> cloud \<Rightarrow> error + cloud" where
  "fit_bands ransac i sub_cloud j ret_cloud =
     (if j > - 5 then
        (let tmp = passThrough Field_z (real_of_int (j - 1)) (real_of_int j) sub_cloud in
         if length tmp < 5 then fit_bands ransac i sub_cloud (j - 1) ret_cloud
         else (case copyPointCloud tmp (ransac (1 / 10) i j tmp) of
                 Inl e \<Rightarrow> Inl e
               | Inr tmp_cloud \<Rightarrow> fit_bands ransac i sub_cloud (j - 1) (ret_cloud @ tmp_cloud)))
      else Inr ret_cloud)"
  by pat_completeness auto
termination
  by (relation "measure (\<lambda>(ransac, i, sub_cloud, j, ret_cloud). nat (j + 5))") auto

declare fit_bands.simps [simp del]

text \<open>
  The limits of pass \<open>i\<close> of the outer loop: \<^verbatim>\<open>thresh_range[i], thresh_range[i+1]\<close> on
  \<open>x\<close> for \<open>i < 2\<close>, \<^verbatim>\<open>thresh_range[i+1], thresh_range[i+2]\<close> on \<open>y\<close> otherwise.
\<close>

definition lateral_limits :: "real list \<Rightarrow> nat \<Rightarrow> error + (field_name \<times> real \<times> real)" where
  "lateral_limits thresh_range i =
     (if i < 2 then
        (case vector_at thresh_range i of
           Inl e \<Rightarrow> Inl e
         | Inr lo \<Rightarrow> (case vector_at thresh_range (i + 1) of
                        Inl e \<Rightarrow> Inl e
                      | Inr hi \<Rightarrow> Inr (Field_x, lo, hi)))
      else
        (case vector_at thresh_range (i + 1) of
           Inl e \<Rightarrow> Inl e
         | Inr lo \<Rightarrow> (case vector_at thresh_range (i + 2) of
                        Inl e \<Rightarrow> Inl e
                      | Inr hi \<Rightarrow> Inr (Field_y, lo, hi))))"

text \<open>The outer loop \<^verbatim>\<open>for (int i = 0; i < 4; ++i)\<close>.\<close>

function segment_walls ::
  "outlier_removal \<Rightarrow> plane_fit \<Rightarrow> cloud \<Rightarrow> real list \<Rightarrow> nat \<Rightarrow> cloud \<Rightarrow> error + cloud" where
  "segment_walls sor ransac src_cloud thresh_range i ret_cloud =
     (if i < 4 then
        (case lateral_limits thresh_range i of
           Inl e \<Rightarrow> Inl e
         | Inr (f, lo, hi) \<Rightarrow>
             (let sub_cloud = passThrough f lo hi src_cloud in
              if length sub_cloud < 5
              then segment_walls sor ransac src_cloud thresh_range (i + 1) ret_cloud
              else (case fit_bands ransac i (sor 50 1 sub_cloud) 0 ret_cloud of
                      Inl e \<Rightarrow> Inl e
                    | Inr fitted \<Rightarrow>
                        segment_walls sor ransac src_cloud thresh_range (i + 1) fitted)))
      else Inr ret_cloud)"
  by pat_completeness auto
termination
  by (relation "measure (\<lambda>(sor, ransac, src_cloud, thresh_range, i, ret_cloud). 4 - i)") auto

declare segment_walls.simps [simp del]

definition rectangularThreshold ::
  "outlier_removal \<Rightarrow> plane_fit \<Rightarrow> cloud \<Rightarrow> real list \<Rightarrow> error + cloud" where
  "rectangularThreshold sor ransac src_cloud thresh_range =
     segment_walls sor ransac src_cloud thresh_range 0 []"

subsection \<open>The Wall Segmenter as the specification words it\<close>

text \<open>
  Written from section 4.2 of the specification, to be compared with
  \<open>rectangularThreshold\<close>: four lateral regions, a region below 5 points skipped,
  outliers removed, five \<open>z\<close> bands of width 1 covering \<open>[-5, 0]\<close>, a band below 5 points
  skipped, the inliers of each fitted band collected, everything concatenated.
\<close>

definition spec_lateral_regions ::
  "real \<Rightarrow> real \<Rightarrow> real \<Rightarrow> real \<Rightarrow> real \<Rightarrow> real \<Rightarrow> (nat \<times> field_name \<times> real \<times> real) list" where
  "spec_lateral_regions min_x mid_x max_x min_y mid_y max_y =
     [(0, Field_x, min_x, mid_x), (1, Field_x, mid_x, max_x),
      (2, Field_y, min_y, mid_y), (3, Field_y, mid_y, max_y)]"

definition spec_bands :: "(int \<times> real \<times> real) list" where
  "spec_bands = [(0, - 1, 0), (- 1, - 2, - 1), (- 2, - 3, - 2), (- 3, - 4, - 3), (- 4, - 5, - 4)]"

definition spec_band_inliers :: "plane_fit \<Rightarrow> nat \<Rightarrow> cloud \<Rightarrow> int \<times> real \<times> real \<Rightarrow> cloud" where
  "spec_band_inliers ransac i region b =
     (case b of (j, lo, hi) \<Rightarrow>
        (let band = passThrough Field_z lo hi region in
         if length band < 5 then [] else map (nth band) (ransac (1 / 10) i j band)))"

definition spec_region_inliers ::
  "outlier_removal \<Rightarrow> plane_fit \<Rightarrow> cloud \<Rightarrow> nat \<times> field_name \<times> real \<times> real \<Rightarrow> cloud" where
  "spec_region_inliers sor ransac c r =
     (case r of (i, f, lo, hi) \<Rightarrow>
        (let region = passThrough f lo hi c in
         if length region < 5 then []
         else concat (map (spec_band_inliers ransac i (sor 50 1 region)) spec_bands)))"

definition spec_segment ::
  "outlier_removal \<Rightarrow> plane_fit \<Rightarrow> cloud \<Rightarrow> real \<Rightarrow> real \<Rightarrow> real \<Rightarrow> real \<Rightarrow> real \<Rightarrow> real \<Rightarrow> cloud" where
  "spec_segment sor ransac c min_x mid_x max_x min_y mid_y max_y =
     concat (map (spec_region_inliers sor ransac c)
                 (spec_lateral_regions min_x mid_x max_x min_y mid_y max_y))"

text \<open>
  What PCL guarantees of \<^verbatim>\<open>getInliers\<close>: the indices are positions of the cloud that was
  fitted.
\<close>

definition inliers_in_range :: "plane_fit \<Rightarrow> bool" where
  "inliers_in_range ransac = (\<forall>t i j c. list_all (\<lambda>k. k < length c) (ransac t i j c))"


section \<open>Rigid transforms (\<^verbatim>\<open>Eigen::Affine3f\<close>)\<close>


















section \<open>The stitching program (\<^verbatim>\<open>source/stitched_cloud.cpp\<close>)\<close>

text \<open>
  The PCL algorithms that \<^verbatim>\<open>stitched_cloud.cpp\<close> runs are parameters, gathered in a
  record: statistical outlier removal (mean \<open>k\<close>, deviation multiplier), the voxel
  grid (leaf size), normal estimation and FPFH features (each with its \<open>k\<close>; \<open>'n\<close> and
  \<open>'f\<close> are the clouds of normals and of features), sample-consensus initial alignment
  (iterations, source, source features, target, target features) and iterative
  closest point (iterations, source, target). The last two return what \<^verbatim>\<open>align\<close>
  writes to its output cloud.
\<close>

record ('n, 'f) pcl =
  statisticalOutlierRemoval :: "int \<Rightarrow> real \<Rightarrow> cloud \<Rightarrow> cloud"
  voxelGrid :: "real \<Rightarrow> cloud \<Rightarrow> cloud"
  normalEstimation :: "int \<Rightarrow> cloud \<Rightarrow> 'n"
  fpfhEstimation :: "int \<Rightarrow> cloud \<Rightarrow> 'n \<Rightarrow> 'f"
  sampleConsensusInitialAlignment :: "int \<Rightarrow> cloud \<Rightarrow> 'f \<Rightarrow> cloud \<Rightarrow> 'f \<Rightarrow> cloud"
  iterativeClosestPoint :: "int \<Rightarrow> cloud \<Rightarrow> cloud \<Rightarrow> cloud"

definition removeOutliers :: "('n, 'f) pcl \<Rightarrow> cloud \<Rightarrow> int \<Rightarrow> int \<Rightarrow> cloud" where
  "removeOutliers P c num_neighbours stddev =
     statisticalOutlierRemoval P num_neighbours (real_of_int stddev) c"

definition downSample :: "('n, 'f) pcl \<Rightarrow> cloud \<Rightarrow> int \<Rightarrow> cloud" where
  "downSample P c leaf_size = voxelGrid P (real_of_int leaf_size) c"

definition filterRangeZ :: "cloud \<Rightarrow> real \<Rightarrow> real \<Rightarrow> cloud" where
  "filterRangeZ c minZ maxZ = passThrough Field_z minZ maxZ c"




text \<open>
  The object state of \<^verbatim>\<open>StitchedCloud\<close> that matters here is its member
  \<^verbatim>\<open>stitched_cloud\<close>. The constructor returns the initial member, \<^verbatim>\<open>addCloud\<close> the new
  one.
\<close>

definition StitchedCloud :: "('n, 'f) pcl \<Rightarrow> cloud \<Rightarrow> cloud" where
  "StitchedCloud P point_cloud =
     (let stitched_cloud = point_cloud;
          stitched_cloud = removeOutliers P stitched_cloud 100 2;
          stitched_cloud = downSample P stitched_cloud 100;
          stitched_cloud = filterRangeZ stitched_cloud 0 10000
      in stitched_cloud)"


section \<open>One frame of the cleanup program (\<^verbatim>\<open>processPCD\<close>, \<^verbatim>\<open>point_cloud_cleanup.cpp\<close>)\<close>







section \<open>Reading the pose-prior file\<close>

subsection \<open>\<^verbatim>\<open>getTransformationData\<close> (\<^verbatim>\<open>source/main.cpp\<close>)\<close>

text \<open>
  \<^verbatim>\<open>while (std::getline(iss, val, delim))\<close> yields the pieces of the line between the
  delimiters; after the last delimiter an empty rest yields nothing, since \<^verbatim>\<open>getline\<close>
  fails when it extracts no character at the end of the stream.
\<close>

fun pieces :: "char \<Rightarrow> string \<Rightarrow> string list" where
  "pieces delim [] = [[]]"
| "pieces delim (c # cs) =
     (if c = delim then [] # pieces delim cs
      else (case pieces delim cs of
              [] \<Rightarrow> [[c]]
            | p # ps \<Rightarrow> (c # p) # ps))"

definition getline_tokens :: "char \<Rightarrow> string \<Rightarrow> string list" where
  "getline_tokens delim line =
     (let ps = pieces delim line in if last ps = [] then butlast ps else ps)"

text \<open>
  \<^verbatim>\<open>std::stod\<close> is library code and a parameter \<open>stod\<close> of the model: the value, or the
  exception it throws. \<^verbatim>\<open>transformVec.push_back(stod(val))\<close> for the columns in order; the
  first exception ends the function.
\<close>

fun convert_all :: "(string \<Rightarrow> error + real) \<Rightarrow> string list \<Rightarrow> error + real list" where
  "convert_all stod [] = Inr []"
| "convert_all stod (val # vals) =
     (case stod val of
        Inl e \<Rightarrow> Inl e
      | Inr v \<Rightarrow>
          (case convert_all stod vals of
             Inl e \<Rightarrow> Inl e
           | Inr vs \<Rightarrow> Inr (v # vs)))"

text \<open>
  One pass of the loop over the lines, for a line that is not skipped. \<open>t_default\<close> is
  the default-constructed \<^verbatim>\<open>TransformData t_data\<close> (its constructor is in
  \<^verbatim>\<open>stitched_cloud.h\<close>). The result is the record that is pushed, and whether the warning
  about the missing confidence was printed. \<^verbatim>\<open>cols_to_skip\<close> is 1.
\<close>

definition parse_row ::
  "(string \<Rightarrow> error + real) \<Rightarrow> TransformData \<Rightarrow> char \<Rightarrow> string \<Rightarrow> error + (TransformData \<times> bool)" where
  "parse_row stod t_default delim line =
     (case convert_all stod (drop 1 (getline_tokens delim line)) of
        Inl e \<Rightarrow> Inl e
      | Inr transformVec \<Rightarrow>
          if length transformVec < 6 then Inl Domain_Error
          else let t_data = t_default\<lparr>rotx := transformVec ! 0, roty := transformVec ! 1,
                                       rotz := transformVec ! 2, dx := transformVec ! 3,
                                       dy := transformVec ! 4, dz := transformVec ! 5\<rparr>
               in if length transformVec > 6
                  then Inr (t_data\<lparr>confidence := transformVec ! 6\<rparr>, False)
                  else Inr (t_data, True))"

text \<open>
  The loop over the lines. The vector is passed by reference, so the rows pushed before
  an exception stay in it: the result is the exception if any, the vector, and the
  number of warnings printed.
\<close>

fun read_rows ::
  "(string \<Rightarrow> error + real) \<Rightarrow> TransformData \<Rightarrow> char \<Rightarrow> string list \<Rightarrow> TransformData list \<Rightarrow> nat
     \<Rightarrow> error option \<times> TransformData list \<times> nat" where
  "read_rows stod t_default delim [] raw warnings = (None, raw, warnings)"
| "read_rows stod t_default delim (line # lines) raw warnings =
     (case parse_row stod t_default delim line of
        Inl e \<Rightarrow> (Some e, raw, warnings)
      | Inr (t_data, warned) \<Rightarrow>
          read_rows stod t_default delim lines (raw @ [t_data])
            (if warned then warnings + 1 else warnings))"

text \<open>\<open>infile\<close> is the list of the lines of the file; \<^verbatim>\<open>rows_to_skip\<close> is 1.\<close>

definition getTransformationData ::
  "(string \<Rightarrow> error + real) \<Rightarrow> TransformData \<Rightarrow> string list \<Rightarrow> TransformData list \<Rightarrow> char
     \<Rightarrow> error option \<times> TransformData list \<times> nat" where
  "getTransformationData stod t_default infile translation_and_rotation_raw delim =
     read_rows stod t_default delim (drop 1 infile) translation_and_rotation_raw 0"

subsection \<open>The reader in \<^verbatim>\<open>main\<close> of \<^verbatim>\<open>point_cloud_cleanup.cpp\<close>\<close>

text \<open>
  \<open>extract line\<close> is the sequence of numbers that \<^verbatim>\<open>while (iss >> val)\<close> reads from the
  line before the extraction fails (stream extraction is library code). Two rows and
  two columns are skipped; a row of any width is pushed and nothing is thrown.
\<close>

definition read_translation_and_rotation_raw ::
  "(string \<Rightarrow> real list) \<Rightarrow> string list \<Rightarrow> real list list" where
  "read_translation_and_rotation_raw extract infile =
     map (\<lambda>line. drop 2 (extract line)) (drop 2 infile)"

section \<open>Properties of the string operations and of the file filter\<close>

lemma index_of_None: "index_of c s = None \<longleftrightarrow> c \<notin> set s"
  by (induction s) auto

lemma index_of_Some: "index_of c s = Some i \<Longrightarrow> i < length s \<and> s ! i = c"
  by (induction s arbitrary: i) (auto split: if_splits)

lemma str_find_absent: "c \<notin> set s \<Longrightarrow> str_find s c = npos"
  by (simp add: str_find_def index_of_None[THEN iffD2])

lemma str_find_present: "c \<in> set s \<Longrightarrow> str_find s c < length s"
  by (cases "index_of c s") (auto simp: str_find_def index_of_None dest: index_of_Some)

lemma take_min_length: "take (min n (length xs)) xs = take n xs"
  by (simp add: min_def)

lemma substr_in_range: "pos \<le> length s \<Longrightarrow> substr s pos n = Inr (take n (drop pos s))"
  using take_min_length [of n "drop pos s"] by (simp add: substr_def)

text \<open>
  Claim C10. \<^verbatim>\<open>filePredicate\<close> returns a keep/skip decision exactly for the names
  that contain a dot. For a name without a dot, such as \<^verbatim>\<open>README\<close>, \<^verbatim>\<open>find\<close> gives
  \<open>npos\<close>, none of the three comparisons holds, and \<^verbatim>\<open>substr(npos, 4)\<close> throws
  \<^verbatim>\<open>std::out_of_range\<close>. (A string is shorter than \<open>npos\<close>.)
\<close>

theorem filePredicate_decides_iff_dot:
  assumes "length s < npos"
  shows "filePredicate s =
           (if CHR ''.'' \<in> set s
            then Inr (s = ''.'' \<or> s = ''..'' \<or> s = ''filtered.pcd'' \<or>
                      take 4 (drop (str_find s CHR ''.'') s) \<noteq> ''.pcd'')
            else Inl Out_Of_Range)"
proof (cases "CHR ''.'' \<in> set s")
  case True
  then have "str_find s CHR ''.'' < length s" by (rule str_find_present)
  then have "substr s (str_find s CHR ''.'') 4 = Inr (take 4 (drop (str_find s CHR ''.'') s))"
    by (simp add: substr_in_range)
  with True show ?thesis by (simp add: filePredicate_def)
next
  case False
  then have "str_find s CHR ''.'' = npos" by (rule str_find_absent)
  with assms have "substr s (str_find s CHR ''.'') 4 = Inl Out_Of_Range"
    by (simp add: substr_def)
  moreover from False have "s \<noteq> ''.''" "s \<noteq> ''..''" "s \<noteq> ''filtered.pcd''" by auto
  ultimately show ?thesis using False by (simp add: filePredicate_def)
qed

theorem filePredicate_README_witness:
  "length ''README'' < npos \<and> filePredicate ''README'' = Inl Out_Of_Range"
  using filePredicate_decides_iff_dot [of "''README''"] by (simp add: npos_def)

section \<open>The frame files are sorted by their numbers\<close>

lemma index_le_iff:
  "frame_index a = Inr i \<Longrightarrow> frame_index b = Inr j \<Longrightarrow> index_le a b \<longleftrightarrow> i \<le> j"
  by (simp add: index_le_def)

lemma compareFilenames_indexed:
  "frame_index a = Inr i \<Longrightarrow> frame_index b = Inr j \<Longrightarrow> compareFilenames a b = Inr (i < j)"
  by (simp add: compareFilenames_def)

lemma index_le_trans: "index_le a b \<Longrightarrow> index_le b c \<Longrightarrow> index_le a c"
  by (auto simp: index_le_def split: sum.splits)


lemma index_of_append_hit:
  "c \<notin> set xs \<Longrightarrow> index_of c (xs @ c # ys) = Some (length xs)"
  by (induction xs) auto

lemma isdigit_not_isspace: "isdigit c \<Longrightarrow> \<not> isspace c"
  by (auto simp: isdigit_def isspace_def)

lemma isdigit_not_special:
  "isdigit c \<Longrightarrow> c \<noteq> CHR ''-'' \<and> c \<noteq> CHR ''+'' \<and> c \<noteq> CHR ''D'' \<and> c \<noteq> CHR ''.''"
  by (auto simp: isdigit_def)

lemma foldl_decimal_nonneg:
  "\<forall>c\<in>set ds. isdigit c \<Longrightarrow> 0 \<le> a \<Longrightarrow> 0 \<le> foldl (\<lambda>a c. 10 * a + digit_value c) a ds"
proof (induction ds arbitrary: a)
  case Nil
  then show ?case by simp
next
  case (Cons d ds)
  then have "0 \<le> 10 * a + digit_value d"
    by (auto simp: isdigit_def digit_value_def)
  with Cons show ?case by simp
qed

lemma stoi_digits:
  assumes "ds \<noteq> []" and "\<forall>c\<in>set ds. isdigit c" and "decimal ds < 2 ^ 31"
  shows "stoi ds = Inr (decimal ds)"
proof -
  obtain d rest where ds: "ds = d # rest" using assms(1) by (cases ds) auto
  with assms(2) have d: "isdigit d" by simp
  have s1: "dropWhile isspace ds = ds"
    using ds d isdigit_not_isspace by simp
  have hd: "hd ds \<noteq> CHR ''-''" "hd ds \<noteq> CHR ''+''"
    using ds d isdigit_not_special by auto
  have tw: "takeWhile isdigit ds = ds"
    using assms(2) by (simp add: takeWhile_eq_all_conv)
  have nonneg: "0 \<le> decimal ds"
    unfolding decimal_def using assms(2) by (rule foldl_decimal_nonneg) simp
  show ?thesis
    using assms(1,3) nonneg by (simp add: stoi_def Let_def s1 hd tw)
qed

text \<open>
  The names the comparator is written for: a prefix without a dot, the letter \<^verbatim>\<open>D\<close>, a
  run of decimal digits below \<open>2 ^ 31\<close>, and \<^verbatim>\<open>.pcd\<close>. The number read is the value of the
  digits.
\<close>

lemma frame_index_scan_name:
  assumes "CHR ''.'' \<notin> set pre" and "ds \<noteq> []" and "\<forall>c\<in>set ds. isdigit c"
    and "decimal ds < 2 ^ 31" and "length pre + length ds + 5 < 2 ^ 64"
  shows "frame_index (pre @ ''D'' @ ds @ ''.pcd'') = Inr (decimal ds)"
proof -
  define a where "a = pre @ ''D'' @ ds @ ''.pcd''"
  have noD: "CHR ''D'' \<notin> set (rev ''.pcd'' @ rev ds)"
    using assms(3) isdigit_not_special by auto
  have "rev a = (rev ''.pcd'' @ rev ds) @ CHR ''D'' # rev pre" by (simp add: a_def)
  then have "index_of CHR ''D'' (rev a) = Some (length (rev ''.pcd'' @ rev ds))"
    using index_of_append_hit [OF noD] by simp
  then have last_D: "find_last_of a CHR ''D'' = length pre"
    by (simp add: find_last_of_def a_def)
  have nodot: "CHR ''.'' \<notin> set (pre @ ''D'' @ ds)"
    using assms(1,3) isdigit_not_special by auto
  have "a = (pre @ ''D'' @ ds) @ CHR ''.'' # ''pcd''" by (simp add: a_def)
  then have "index_of CHR ''.'' a = Some (length (pre @ ''D'' @ ds))"
    using index_of_append_hit [OF nodot] by simp
  then have first_dot: "str_find a CHR ''.'' = length pre + 1 + length ds"
    by (simp add: str_find_def)
  have start: "size_t_add (find_last_of a CHR ''D'') (Suc 0) = Suc (length pre)"
    using assms(5) by (simp add: last_D size_t_add_def)
  have len: "size_t_sub (str_find a CHR ''.'') (Suc (length pre)) = length ds"
    using assms(5) by (simp add: first_dot size_t_sub_def)
  have "substr a (Suc (length pre)) (length ds) = Inr ds"
    by (simp add: substr_def a_def)
  then have "frame_index a = Inr (decimal ds)"
    using stoi_digits [OF assms(2,3,4)] by (simp add: frame_index_def Let_def start len)
  then show ?thesis by (simp only: a_def)
qed

text \<open>The filter, the visiting order and the order of the cleanup program.\<close>

lemma remove_non_pcd_kept:
  "remove_non_pcd files = Inr kept \<Longrightarrow> kept = filter (\<lambda>s. filePredicate s = Inr False) files"
proof (induction files arbitrary: kept)
  case Nil
  then show ?case by simp
next
  case (Cons s files)
  then show ?case
    by (auto split: sum.splits if_splits)
qed



















section \<open>The aggregation of pose-prior rows leaves the vector\<close>

lemma sum_rows_length:
  "sum_rows v i j ts = Inr ts' \<Longrightarrow> length ts' = length ts"
proof (induction v i j ts rule: sum_rows.induct)
  case (1 v i j ts)
  show ?case
  proof (cases "j < v")
    case True
    show ?thesis
    proof (cases "i < length ts \<and> i + j < length ts")
      case inb: True
      from "1.prems" have "sum_rows v i (j + 1) (ts[i := add_into (ts ! i) (ts ! (i + j))]) = Inr ts'"
        by (subst (asm) sum_rows.simps) (simp add: True inb)
      from "1.IH" [OF True inb this] show ?thesis by simp
    next
      case False
      from "1.prems" have "Inl Undefined_Behaviour = (Inr ts' :: error + TransformData list)"
        by (subst (asm) sum_rows.simps) (use True False in auto)
      then show ?thesis by simp
    qed
  next
    case False
    from "1.prems" have "ts' = ts"
      by (subst (asm) sum_rows.simps) (simp add: False)
    then show ?thesis by simp
  qed
qed

lemma sum_rows_error:
  "sum_rows v i j ts = Inl e \<Longrightarrow> e = Undefined_Behaviour"
proof (induction v i j ts rule: sum_rows.induct)
  case (1 v i j ts)
  show ?case
  proof (cases "j < v")
    case True
    show ?thesis
    proof (cases "i < length ts \<and> i + j < length ts")
      case inb: True
      from "1.prems" have "sum_rows v i (j + 1) (ts[i := add_into (ts ! i) (ts ! (i + j))]) = Inl e"
        by (subst (asm) sum_rows.simps) (simp add: True inb)
      from "1.IH" [OF True inb this] show ?thesis .
    next
      case False
      from "1.prems" have "Inl Undefined_Behaviour = (Inl e :: error + TransformData list)"
        by (subst (asm) sum_rows.simps) (use True False in auto)
      then show ?thesis by simp
    qed
  next
    case False
    from "1.prems" have "Inr ts = (Inl e :: error + TransformData list)"
      by (subst (asm) sum_rows.simps) (simp add: False)
    then show ?thesis by simp
  qed
qed

lemma average_group_Inr:
  assumes "average_group v i ts = Inr ts'"
  shows "length ts' = length ts \<and> i < length ts"
proof -
  from assms obtain summed where s: "sum_rows v i 1 ts = Inr summed"
    by (cases "sum_rows v i 1 ts") (auto simp: average_group_def)
  then have len: "length summed = length ts" by (rule sum_rows_length)
  from assms s show ?thesis
    by (auto simp: average_group_def len split: if_splits)
qed

lemma average_group_Inl:
  assumes "average_group v i ts = Inl e"
  shows "e = Undefined_Behaviour"
proof (cases "sum_rows v i 1 ts")
  case (Inl e')
  with assms have "e = e'" by (simp add: average_group_def)
  with Inl show ?thesis by (auto dest: sum_rows_error)
next
  case (Inr summed)
  with assms show ?thesis by (auto simp: average_group_def split: if_splits)
qed

lemma average_loop_overruns:
  assumes "0 < v" and "i < length ts + v"
  shows "average_loop v i ts = Some (Inl Undefined_Behaviour)"
  using assms(2)
proof (induction "length ts + v - i" arbitrary: i ts rule: less_induct)
  case less
  show ?case
  proof (cases "average_group v i ts")
    case (Inl e)
    then have "e = Undefined_Behaviour" by (rule average_group_Inl)
    with Inl less.prems show ?thesis
      by (subst average_loop.simps) simp
  next
    case (Inr averaged)
    then have len: "length averaged = length ts" and i: "i < length ts"
      using average_group_Inr by blast+
    have "average_loop v (i + v) averaged = Some (Inl Undefined_Behaviour)"
      using assms(1) len i by (intro less.hyps) auto
    with Inr less.prems show ?thesis
      by (subst average_loop.simps) simp
  qed
qed

text \<open>
  The bound \<^verbatim>\<open>size() + vals_per_cloud\<close> of the first loop admits one pass more than
  there are groups: in its last pass \<open>i\<close> is at or past \<open>size()\<close>. So with any positive
  \<^verbatim>\<open>vals_per_cloud\<close> and any table, the function leaves the vector.
\<close>

lemma averageTransformationData_overruns:
  "0 < v \<Longrightarrow> averageTransformationData ts v = Some (Inl Undefined_Behaviour)"
  by (simp add: averageTransformationData_def average_loop_overruns)

text \<open>
  The second loop on its own erases \<^verbatim>\<open>vals_per_cloud\<close> rows after each row it keeps, not
  \<^verbatim>\<open>vals_per_cloud - 1\<close>: on two groups of two rows it keeps rows 0 and 3 and then erases
  at \<^verbatim>\<open>end()\<close>.
\<close>

lemma erase_loop_two_groups:
  "erase_loop 2 0 [a, b, c, d] = Inl Undefined_Behaviour"
proof -
  have r0: "erase_rows 2 0 0 [a, b, c, d] = Inr [a, d]"
    by (simp add: erase_rows.simps [of 2 0] erase_at_def)
  have r1: "erase_rows 2 (Suc 0) 0 [a, d] = Inl Undefined_Behaviour"
    by (simp add: erase_rows.simps [of 2 "Suc 0"] erase_at_def)
  show ?thesis
    by (simp add: erase_loop.simps [of 2 0] erase_loop.simps [of 2 "Suc 0"] r0 r1)
qed

text \<open>
  Claim C1 (the code departs from it). For a table whose row count is a multiple of
  the rows per frame, the claim has one averaged record per frame. The code instead,
  for every such table and every positive rows per frame, reads and writes
  \<^verbatim>\<open>transformations[i]\<close> with \<open>i = size()\<close> in the last pass of its first loop.
\<close>

theorem averageTransformationData_multiple_overruns:
  assumes "0 < vals_per_cloud" and "length transformations = frames * vals_per_cloud"
  shows "averageTransformationData transformations vals_per_cloud = Some (Inl Undefined_Behaviour)"
  using assms(1) by (rule averageTransformationData_overruns)

theorem averageTransformationData_multiple_overruns_witness:
  "(0 :: nat) < 10 \<and>
   length (replicate 10 \<lparr>dx = 1, dy = 2, dz = 3, rotx = 0, roty = 0, rotz = 0, confidence = 1\<rparr>) = 1 * 10 \<and>
   averageTransformationData
     (replicate 10 \<lparr>dx = 1, dy = 2, dz = 3, rotx = 0, roty = 0, rotz = 0, confidence = 1\<rparr>) 10 =
     Some (Inl Undefined_Behaviour)"
  using averageTransformationData_multiple_overruns
    [of 10 "replicate 10 \<lparr>dx = 1, dy = 2, dz = 3, rotx = 0, roty = 0, rotz = 0, confidence = 1\<rparr>" 1]
  by simp

text \<open>
  Claim C7 (the code departs from it). For a table whose row count is not a multiple
  of the rows per frame, the claim has every access stay inside the vector. The code
  has no clamp and no drop of the partial group: for every such table the first loop
  runs past the end.
\<close>

theorem averageTransformationData_remainder_overruns:
  assumes "0 < vals_per_cloud" and "\<not> vals_per_cloud dvd length transformations"
  shows "averageTransformationData transformations vals_per_cloud = Some (Inl Undefined_Behaviour)"
  using assms(1) by (rule averageTransformationData_overruns)

theorem averageTransformationData_remainder_overruns_witness:
  "(0 :: nat) < 10 \<and>
   \<not> 10 dvd length (replicate 13 \<lparr>dx = 0, dy = 0, dz = 0, rotx = 0, roty = 0, rotz = 0, confidence = 0\<rparr>) \<and>
   averageTransformationData
     (replicate 13 \<lparr>dx = 0, dy = 0, dz = 0, rotx = 0, roty = 0, rotz = 0, confidence = 0\<rparr>) 10 =
     Some (Inl Undefined_Behaviour)"
  using averageTransformationData_remainder_overruns
    [of 10 "replicate 13 \<lparr>dx = 0, dy = 0, dz = 0, rotx = 0, roty = 0, rotz = 0, confidence = 0\<rparr>"]
  by simp

section \<open>The wall segmenter computes what the specification describes\<close>

lemma copyPointCloud_inliers:
  "inliers_in_range ransac \<Longrightarrow>
   copyPointCloud c (ransac t i j c) = Inr (map (nth c) (ransac t i j c))"
  by (simp add: copyPointCloud_def inliers_in_range_def)

lemma fit_bands_step:
  assumes "inliers_in_range ransac" and "- 5 < j"
  shows "fit_bands ransac i sub_cloud j ret_cloud =
           fit_bands ransac i sub_cloud (j - 1)
             (ret_cloud @ spec_band_inliers ransac i sub_cloud (j, real_of_int (j - 1), real_of_int j))"
  using assms(2)
  by (subst fit_bands.simps)
     (simp add: Let_def spec_band_inliers_def copyPointCloud_inliers [OF assms(1)])

lemma fit_bands_end: "\<not> - 5 < j \<Longrightarrow> fit_bands ransac i sub_cloud j ret_cloud = Inr ret_cloud"
  by (subst fit_bands.simps) simp

lemma fit_bands_all:
  assumes "inliers_in_range ransac"
  shows "fit_bands ransac i sub_cloud 0 ret_cloud =
           Inr (ret_cloud @ concat (map (spec_band_inliers ransac i sub_cloud) spec_bands))"
  by (simp add: fit_bands_step [OF assms] fit_bands_end spec_bands_def)

lemma lateral_limits_six:
  "lateral_limits [min_x, mid_x, max_x, min_y, mid_y, max_y] 0 = Inr (Field_x, min_x, mid_x)"
  "lateral_limits [min_x, mid_x, max_x, min_y, mid_y, max_y] (Suc 0) = Inr (Field_x, mid_x, max_x)"
  "lateral_limits [min_x, mid_x, max_x, min_y, mid_y, max_y] (Suc (Suc 0)) = Inr (Field_y, min_y, mid_y)"
  "lateral_limits [min_x, mid_x, max_x, min_y, mid_y, max_y] (Suc (Suc (Suc 0))) = Inr (Field_y, mid_y, max_y)"
  by (simp_all add: lateral_limits_def vector_at_def)

lemma segment_walls_step:
  assumes "inliers_in_range ransac" and "i < 4"
    and "lateral_limits thresh_range i = Inr (f, lo, hi)"
  shows "segment_walls sor ransac src_cloud thresh_range i ret_cloud =
           segment_walls sor ransac src_cloud thresh_range (Suc i)
             (ret_cloud @ spec_region_inliers sor ransac src_cloud (i, f, lo, hi))"
  using assms(2,3)
  by (subst segment_walls.simps)
     (simp add: Let_def spec_region_inliers_def fit_bands_all [OF assms(1)])

lemma segment_walls_end:
  "\<not> i < 4 \<Longrightarrow> segment_walls sor ransac src_cloud thresh_range i ret_cloud = Inr ret_cloud"
  by (subst segment_walls.simps) simp

lemma rectangularThreshold_six:
  assumes "inliers_in_range ransac"
  shows "rectangularThreshold sor ransac src_cloud [min_x, mid_x, max_x, min_y, mid_y, max_y] =
           Inr (spec_segment sor ransac src_cloud min_x mid_x max_x min_y mid_y max_y)"
proof -
  let ?t = "[min_x, mid_x, max_x, min_y, mid_y, max_y]"
  let ?walls = "segment_walls sor ransac src_cloud ?t"
  let ?r = "spec_region_inliers sor ransac src_cloud"
  have p0: "?walls 0 ret = ?walls (Suc 0) (ret @ ?r (0, Field_x, min_x, mid_x))" for ret
    by (rule segment_walls_step [OF assms _ lateral_limits_six(1)]) simp
  have p1: "?walls (Suc 0) ret = ?walls (Suc (Suc 0)) (ret @ ?r (Suc 0, Field_x, mid_x, max_x))" for ret
    by (rule segment_walls_step [OF assms _ lateral_limits_six(2)]) simp
  have p2: "?walls (Suc (Suc 0)) ret =
              ?walls (Suc (Suc (Suc 0))) (ret @ ?r (Suc (Suc 0), Field_y, min_y, mid_y))" for ret
    by (rule segment_walls_step [OF assms _ lateral_limits_six(3)]) simp
  have p3: "?walls (Suc (Suc (Suc 0))) ret =
              ?walls (Suc (Suc (Suc (Suc 0)))) (ret @ ?r (Suc (Suc (Suc 0)), Field_y, mid_y, max_y))" for ret
    by (rule segment_walls_step [OF assms _ lateral_limits_six(4)]) simp
  have p4: "?walls (Suc (Suc (Suc (Suc 0)))) ret = Inr ret" for ret
    by (rule segment_walls_end) simp
  have "?walls 0 [] =
          Inr (?r (0, Field_x, min_x, mid_x) @ ?r (Suc 0, Field_x, mid_x, max_x) @
               ?r (Suc (Suc 0), Field_y, min_y, mid_y) @ ?r (Suc (Suc (Suc 0)), Field_y, mid_y, max_y))"
    by (simp only: p0 p1 p2 p3 p4 append_Nil append_assoc)
  moreover have "Suc (Suc 0) = 2" "Suc (Suc (Suc 0)) = 3" by simp_all
  ultimately show ?thesis
    by (simp add: rectangularThreshold_def spec_segment_def spec_lateral_regions_def)
qed

text \<open>
  Claim C2. For every input cloud and every six lateral bounds, whatever the outlier
  removal returns and whatever in-range inliers the plane fits return,
  \<^verbatim>\<open>rectangularThreshold\<close> ends without a failure and returns exactly the cloud the
  specification describes: the four lateral regions in the order x-low, x-high, y-low,
  y-high, a region under 5 points skipped, each other region cleaned and cut into the
  five bands \<open>[-1, 0]\<close>, \<open>[-2, -1]\<close>, ..., \<open>[-5, -4]\<close> of \<open>z\<close>, a band under 5 points skipped,
  and the inliers of all fitted bands concatenated.
\<close>

theorem rectangularThreshold_refines_spec:
  assumes "inliers_in_range ransac"
  shows "rectangularThreshold sor ransac src_cloud [min_x, mid_x, max_x, min_y, mid_y, max_y] =
           Inr (spec_segment sor ransac src_cloud min_x mid_x max_x min_y mid_y max_y)"
  using assms by (rule rectangularThreshold_six)

text \<open>
  An instance: five points on the wall \<open>x = -1\<close> in the band \<open>[-1, 0]\<close> and one lone point
  at \<open>x = 3\<close>; nothing is an outlier and every point of a fitted band is an inlier. Only
  the x-low region has 5 points (all \<open>y\<close> are 7, outside both y regions), and its first
  band returns the five wall points.
\<close>

theorem rectangularThreshold_refines_spec_witness:
  "inliers_in_range (\<lambda>t i j c. [0..<length c]) \<and>
   rectangularThreshold (\<lambda>k m c. c) (\<lambda>t i j c. [0..<length c])
     [\<lparr>px = - 1, py = 7, pz = - 1 / 2\<rparr>, \<lparr>px = - 1, py = 7, pz = - 1 / 4\<rparr>,
      \<lparr>px = 3, py = 7, pz = - 7 / 2\<rparr>,
      \<lparr>px = - 1, py = 7, pz = - 3 / 4\<rparr>, \<lparr>px = - 1, py = 7, pz = - 1 / 8\<rparr>,
      \<lparr>px = - 1, py = 7, pz = - 3 / 8\<rparr>]
     [- 5, 0, 5, - 5, 0, 5] =
   Inr [\<lparr>px = - 1, py = 7, pz = - 1 / 2\<rparr>, \<lparr>px = - 1, py = 7, pz = - 1 / 4\<rparr>,
        \<lparr>px = - 1, py = 7, pz = - 3 / 4\<rparr>, \<lparr>px = - 1, py = 7, pz = - 1 / 8\<rparr>,
        \<lparr>px = - 1, py = 7, pz = - 3 / 8\<rparr>]"
proof -
  have r: "inliers_in_range (\<lambda>t i j c. [0..<length c])"
    by (simp add: inliers_in_range_def list_all_iff)
  have five: "[0..<5] = [0, 1, 2, 3, 4]"
    by (simp add: upt_rec)
  show ?thesis
    using rectangularThreshold_refines_spec [OF r, of "\<lambda>k m c. c" _ "- 5" 0 5 "- 5" 0 5] r
    by (simp add: spec_segment_def spec_lateral_regions_def spec_region_inliers_def
          spec_band_inliers_def spec_bands_def passThrough_def five)
qed

section \<open>Rows of the pose-prior file\<close>

lemma parse_row_converted:
  assumes "convert_all stod (drop 1 (getline_tokens delim line)) = Inr vs"
  shows "parse_row stod t_default delim line =
           (if length vs < 6 then Inl Domain_Error
            else Inr (t_default\<lparr>rotx := vs ! 0, roty := vs ! 1, rotz := vs ! 2,
                                 dx := vs ! 3, dy := vs ! 4, dz := vs ! 5,
                                 confidence := (if 6 < length vs then vs ! 6 else confidence t_default)\<rparr>,
                      length vs = 6))"
  using assms by (auto simp: parse_row_def Let_def)

lemma parse_row_not_converted:
  "convert_all stod (drop 1 (getline_tokens delim line)) = Inl e \<Longrightarrow>
   parse_row stod t_default delim line = Inl e"
  by (simp add: parse_row_def)

lemma read_rows_status:
  "fst (read_rows stod t_default delim lines raw w) = None \<longleftrightarrow>
     (\<forall>line\<in>set lines. \<exists>r. parse_row stod t_default delim line = Inr r)"
proof (induction lines arbitrary: raw w)
  case Nil
  show ?case by simp
next
  case (Cons line lines)
  show ?case
  proof (cases "parse_row stod t_default delim line")
    case (Inl e)
    then show ?thesis by simp
  next
    case (Inr r)
    obtain t_data warned where r: "r = (t_data, warned)" by (cases r)
    show ?thesis using Inr r Cons.IH by simp
  qed
qed

lemma read_rows_rows:
  assumes "\<forall>line\<in>set lines. \<exists>r. parse_row stod t_default delim line = Inr r"
  shows "fst (snd (read_rows stod t_default delim lines raw w)) =
           raw @ map (\<lambda>line. fst (projr (parse_row stod t_default delim line))) lines"
  using assms
proof (induction lines arbitrary: raw w)
  case Nil
  show ?case by simp
next
  case (Cons line lines)
  then obtain t_data warned where r: "parse_row stod t_default delim line = Inr (t_data, warned)"
    by fastforce
  with Cons show ?case by simp
qed

text \<open>
  Claim C8, as amended. In \<^verbatim>\<open>getTransformationData\<close>, for a row all of whose columns after
  the first are converted by \<^verbatim>\<open>stod\<close>, the values go by position to \<open>rotx\<close>, \<open>roty\<close>,
  \<open>rotz\<close>, \<open>dx\<close>, \<open>dy\<close>, \<open>dz\<close> and, when there is a seventh, \<open>confidence\<close>; the row raises
  the domain error exactly when fewer than 6 values are there; with exactly 6 the
  confidence keeps its default and the warning is printed. The whole call ends without
  an exception exactly when every row after the header row is read so, and then the
  vector holds one record for each of these rows, in file order.
\<close>

theorem getTransformationData_rows:
  assumes "convert_all stod (drop 1 (getline_tokens delim line)) = Inr vs"
  shows "parse_row stod t_default delim line =
           (if length vs < 6 then Inl Domain_Error
            else Inr (t_default\<lparr>rotx := vs ! 0, roty := vs ! 1, rotz := vs ! 2,
                                 dx := vs ! 3, dy := vs ! 4, dz := vs ! 5,
                                 confidence := (if 6 < length vs then vs ! 6 else confidence t_default)\<rparr>,
                      length vs = 6)) \<and>
         (fst (getTransformationData stod t_default infile raw delim) = None \<longleftrightarrow>
            (\<forall>l\<in>set (drop 1 infile). \<exists>r. parse_row stod t_default delim l = Inr r)) \<and>
         ((\<forall>l\<in>set (drop 1 infile). \<exists>r. parse_row stod t_default delim l = Inr r) \<longrightarrow>
            fst (snd (getTransformationData stod t_default infile raw delim)) =
              raw @ map (\<lambda>l. fst (projr (parse_row stod t_default delim l))) (drop 1 infile))"
  using parse_row_converted [OF assms]
  by (simp add: getTransformationData_def read_rows_status read_rows_rows)

theorem getTransformationData_rows_witness:
  "convert_all
     (\<lambda>s. if s = ''0.5'' then Inr (1 / 2) else if s = ''1'' then Inr 1
           else if s = ''2'' then Inr 2 else Inl Invalid_Argument)
     (drop 1 (getline_tokens CHR '';'' ''f0;0.5;1;2;1;2;0.5'')) = Inr [1 / 2, 1, 2, 1, 2, 1 / 2] \<and>
   parse_row
     (\<lambda>s. if s = ''0.5'' then Inr (1 / 2) else if s = ''1'' then Inr 1
           else if s = ''2'' then Inr 2 else Inl Invalid_Argument)
     \<lparr>dx = 0, dy = 0, dz = 0, rotx = 0, roty = 0, rotz = 0, confidence = 0\<rparr>
     CHR '';'' ''f0;0.5;1;2;1;2;0.5'' =
   Inr (\<lparr>dx = 1, dy = 2, dz = 1 / 2, rotx = 1 / 2, roty = 1, rotz = 2, confidence = 0\<rparr>, True)"
proof -
  let ?stod = "\<lambda>s. if s = ''0.5'' then Inr (1 / 2) else if s = ''1'' then Inr 1
                    else if s = ''2'' then Inr 2 else (Inl Invalid_Argument :: error + real)"
  have c: "convert_all ?stod (drop 1 (getline_tokens CHR '';'' ''f0;0.5;1;2;1;2;0.5'')) =
             Inr [1 / 2, 1, 2, 1, 2, 1 / 2]"
    by (simp add: getline_tokens_def)
  from getTransformationData_rows [OF c] c show ?thesis by simp
qed

text \<open>
  Claim C8 as stated fails for the reader of the cleanup program: after two header
  rows, a row with two leading and three further numbers is taken as a row of three
  columns, and nothing is raised.
\<close>

theorem cleanup_reader_accepts_short_row:
  "read_translation_and_rotation_raw
     (\<lambda>line. if line = ''0 0 1 2 3'' then [0, 0, 1, 2, 3] else [])
     [''time frame dx dy dz'', ''s - m m m'', ''0 0 1 2 3''] = [[1, 2, 3]]"
  by (simp add: read_translation_and_rotation_raw_def)

section \<open>The first frame and the pose-prior transforms\<close>






text \<open>
  Claim C9. The constructor of \<^verbatim>\<open>StitchedCloud\<close> makes the first frame the model after
  exactly three steps in this order: outlier removal (100 neighbours, multiplier 2),
  downsampling (leaf size 100), and the range filter keeping \<open>z\<close> in \<open>[0, 10000]\<close>. No
  registration takes part: the result is the same whatever the normal, feature,
  initial-alignment and closest-point algorithms are.
\<close>

theorem StitchedCloud_seed:
  "StitchedCloud P point_cloud =
     passThrough Field_z 0 10000
       (voxelGrid P 100 (statisticalOutlierRemoval P 100 2 point_cloud)) \<and>
   StitchedCloud
     (P\<lparr>normalEstimation := n, fpfhEstimation := f,
        sampleConsensusInitialAlignment := a, iterativeClosestPoint := b\<rparr>) point_cloud =
     StitchedCloud P point_cloud"
  by (simp add: StitchedCloud_def Let_def removeOutliers_def downSample_def filterRangeZ_def)

theorem StitchedCloud_seed_witness:
  "StitchedCloud
     \<lparr>statisticalOutlierRemoval = (\<lambda>k m c. c), voxelGrid = (\<lambda>l c. c),
      normalEstimation = (\<lambda>k c. ()), fpfhEstimation = (\<lambda>k c n. ()),
      sampleConsensusInitialAlignment = (\<lambda>k c f d g. []), iterativeClosestPoint = (\<lambda>k c d. [])\<rparr>
     [\<lparr>px = 0, py = 0, pz = 1\<rparr>, \<lparr>px = 0, py = 0, pz = - 1\<rparr>] =
   [\<lparr>px = 0, py = 0, pz = 1\<rparr>]"
  using StitchedCloud_seed
    [of "\<lparr>statisticalOutlierRemoval = (\<lambda>k m c. c), voxelGrid = (\<lambda>l c. c),
          normalEstimation = (\<lambda>k c. ()), fpfhEstimation = (\<lambda>k c n. ()),
          sampleConsensusInitialAlignment = (\<lambda>k c f d g. []), iterativeClosestPoint = (\<lambda>k c d. [])\<rparr>"
        "[\<lparr>px = 0, py = 0, pz = 1\<rparr>, \<lparr>px = 0, py = 0, pz = - 1\<rparr>]"]
  by (simp add: passThrough_def)




end
